theory Spec2Isabelle
  imports Main
begin

section \<open>The signalling server of the livestream application\<close>

text \<open>
  The server keeps two pieces of module-level state, \<^verbatim>\<open>streamState\<close> and
  \<^verbatim>\<open>connectedUsers\<close>, and registers one handler per socket event inside
  \<^verbatim>\<open>io.on('connection', ...)\<close>. Each handler runs to completion, so a handler is
  modelled as a function from the state to the new state and the list of messages it
  emits, in the order of the \<^verbatim>\<open>emit\<close> calls.

  Socket ids are strings. \<^verbatim>\<open>new Date()\<close> and \<^verbatim>\<open>Date.now()\<close> read the clock; the
  reading is an argument \<open>now\<close> of the handler (milliseconds).

  \<^verbatim>\<open>viewerCount\<close> is a JavaScript number, a double, that only ever holds integers from
  0 to \<open>2^53\<close>; the field is an \<open>int\<close>. On this range \<^verbatim>\<open>viewerCount - 1\<close> is exact,
  and \<^verbatim>\<open>viewerCount++\<close> is exact below \<open>2^53\<close>; at \<open>2^53\<close> the sum \<open>2^53 + 1\<close> is
  not a double and rounds back to \<open>2^53\<close> (\<open>Number_increment\<close> below).
\<close>

type_synonym socket_id = string

subsection \<open>JavaScript \<^verbatim>\<open>Map\<close>: keys in insertion order\<close>

text \<open>
  A \<^verbatim>\<open>Map\<close> iterates its keys in insertion order; \<^verbatim>\<open>set\<close> on a key that is present
  replaces the value in place, \<^verbatim>\<open>set\<close> on a new key appends it; \<^verbatim>\<open>delete\<close> removes the
  key. The model is the list of entries in iteration order.
\<close>

type_synonym ('k, 'v) js_map = "('k \<times> 'v) list"

fun Map_get :: "('k, 'v) js_map \<Rightarrow> 'k \<Rightarrow> 'v option" where
  "Map_get [] k = None"
| "Map_get ((k', v) # m) k = (if k' = k then Some v else Map_get m k)"

definition Map_has :: "('k, 'v) js_map \<Rightarrow> 'k \<Rightarrow> bool" where
  "Map_has m k = (Map_get m k \<noteq> None)"

fun Map_set :: "'k \<Rightarrow> 'v \<Rightarrow> ('k, 'v) js_map \<Rightarrow> ('k, 'v) js_map" where
  "Map_set k v [] = [(k, v)]"
| "Map_set k v ((k', v') # m) = (if k' = k then (k, v) # m else (k', v') # Map_set k v m)"

fun Map_delete :: "'k \<Rightarrow> ('k, 'v) js_map \<Rightarrow> ('k, 'v) js_map" where
  "Map_delete k [] = []"
| "Map_delete k ((k', v) # m) = (if k' = k then Map_delete k m else (k', v) # Map_delete k m)"

definition Map_size :: "('k, 'v) js_map \<Rightarrow> nat" where
  "Map_size m = length m"

definition Map_keys :: "('k, 'v) js_map \<Rightarrow> 'k list" where
  "Map_keys m = map fst m"

subsection \<open>State\<close>

record user_info =
  username :: string
  isAdmin :: bool
  joinTime :: nat

text \<open>An entry of \<^verbatim>\<open>activeStreams\<close>; its \<^verbatim>\<open>startTime\<close> field is \<open>streamStartTime\<close>.\<close>

record stream_info =
  adminUsername :: string
  streamStartTime :: nat
  isPrimary :: bool

record stream_state =
  isLive :: bool
  activeStreams :: "(socket_id, stream_info) js_map"
  viewerCount :: int
  startTime :: "nat option"
  currentAdminSocketId :: "socket_id option"

record server =
  streamState :: stream_state
  connectedUsers :: "(socket_id, user_info) js_map"

definition init_server :: server where
  "init_server =
     \<lparr> streamState =
         \<lparr> isLive = False, activeStreams = [], viewerCount = 0, startTime = None,
           currentAdminSocketId = None \<rparr>,
       connectedUsers = [] \<rparr>"

subsection \<open>Messages\<close>

text \<open>
  \<^verbatim>\<open>io.emit\<close> addresses every connected socket, \<^verbatim>\<open>socket.emit\<close> the socket of the
  handler, \<^verbatim>\<open>io.to(id).emit\<close> the room \<open>id\<close>.
\<close>

datatype target = ToAll | ToSocket socket_id | ToRoom socket_id

record chat_message =
  cm_id :: nat
  cm_username :: string
  cm_message :: string
  cm_timestamp :: nat
  cm_isAdmin :: bool
  cm_socketId :: socket_id

text \<open>
  The payload of each event, fields in the order of the source's object literal:
  \<^item> \<open>StreamStatus isLive viewerCount startTime currentAdminSocketId\<close>
  \<^item> \<open>StreamError message\<close>
  \<^item> \<open>StreamStarted message startTime adminUsername adminSocketId\<close>
  \<^item> \<open>StreamTransition message newAdminSocketId\<close>
  \<^item> \<open>StreamEnded message\<close>
  \<^item> \<open>ViewerJoined viewerCount viewerSocketId viewerUsername\<close>
  \<^item> \<open>ViewerCountUpdate viewerCount\<close>
  \<^item> \<open>ViewerJoinedConfirmed message viewerCount\<close>
  \<^item> \<open>ViewerReady viewerSocketId viewerUsername\<close>
  \<^item> \<open>ViewerLeft viewerCount viewerSocketId viewerUsername\<close>
  \<^item> \<open>WebrtcSignal signal from type\<close>
  \<^item> \<open>ChatMessage message\<close>
\<close>

datatype server_event =
    StreamStatus bool int "nat option" "socket_id option"
  | StreamError string
  | StreamStarted string nat string socket_id
  | StreamTransition string socket_id
  | StreamEnded string
  | ViewerJoined int socket_id string
  | ViewerCountUpdate int
  | ViewerJoinedConfirmed string int
  | ViewerReady socket_id string
  | ViewerLeft int socket_id string
  | WebrtcSignal string socket_id string
  | ChatMessage chat_message

type_synonym emission = "target \<times> server_event"

text \<open>
  Delivery by socket.io, given the set \<open>conns\<close> of the sockets connected at the
  moment of the emit. Every socket is in the room named by its own id, and the server
  never calls \<^verbatim>\<open>socket.join\<close>, so the room \<open>r\<close> holds the socket \<open>r\<close> while it is
  connected and nobody otherwise.
\<close>

fun recipients :: "socket_id set \<Rightarrow> target \<Rightarrow> socket_id set" where
  "recipients conns ToAll = conns"
| "recipients conns (ToSocket c) = {c}"
| "recipients conns (ToRoom r) = conns \<inter> {r}"

definition received :: "socket_id set \<Rightarrow> emission list \<Rightarrow> socket_id \<Rightarrow> server_event list" where
  "received conns out c = map snd (filter (\<lambda>e. c \<in> recipients conns (fst e)) out)"

text \<open>
  Truthiness of a socket id that may be \<^verbatim>\<open>null\<close> or \<^verbatim>\<open>undefined\<close> (\<open>None\<close>): the empty
  string is falsy as well.
\<close>

fun truthy :: "socket_id option \<Rightarrow> bool" where
  "truthy None = False"
| "truthy (Some i) = (i \<noteq> [])"

text \<open>
  \<^verbatim>\<open>n++\<close> on a number that holds an integer \<open>n\<close> with \<open>0 \<le> n \<le> 2^53\<close>: the doubles
  next to \<open>2^53\<close> are \<open>2^53 - 1\<close> and \<open>2^53 + 2\<close>, and \<open>2^53 + 1\<close>, half way
  between \<open>2^53\<close> and \<open>2^53 + 2\<close>, rounds to the one with the even mantissa, \<open>2^53\<close>.
\<close>

definition Number_increment :: "int \<Rightarrow> int" where
  "Number_increment n = (if n < 2 ^ 53 then n + 1 else n)"

subsection \<open>Handlers\<close>

text \<open>\<^verbatim>\<open>socket.on('user-info', ...)\<close>\<close>

definition user_info_handler :: "socket_id \<Rightarrow> nat \<Rightarrow> string \<Rightarrow> bool \<Rightarrow> server \<Rightarrow> server \<times> emission list" where
  "user_info_handler sid now name admin s =
     (let ss = streamState s in
      (s\<lparr>connectedUsers :=
           Map_set sid \<lparr>username = name, isAdmin = admin, joinTime = now\<rparr> (connectedUsers s)\<rparr>,
       [(ToSocket sid,
         StreamStatus (isLive ss) (viewerCount ss) (startTime ss) (currentAdminSocketId ss))]))"

text \<open>\<^verbatim>\<open>socket.on('start-stream', ...)\<close>\<close>

definition start_stream :: "socket_id \<Rightarrow> nat \<Rightarrow> server \<Rightarrow> server \<times> emission list" where
  "start_stream sid now s =
     (case Map_get (connectedUsers s) sid of
        None \<Rightarrow> (s, [(ToSocket sid, StreamError ''Only admins can start streams'')])
      | Some user \<Rightarrow>
          if isAdmin user then
            if Map_has (activeStreams (streamState s)) sid then
              (s, [(ToSocket sid, StreamError ''You are already streaming'')])
            else
              let ss = (streamState s)
                    \<lparr> isLive := True,
                      currentAdminSocketId := Some sid,
                      startTime := Some now \<rparr>;
                  ss = ss\<lparr>activeStreams :=
                          Map_set sid
                            \<lparr>adminUsername = username user, streamStartTime = now,
                             isPrimary = True\<rparr>
                            (activeStreams ss)\<rparr>
              in (s\<lparr>streamState := ss\<rparr>,
                  [(ToAll, StreamStarted ''Live stream started'' now (username user) sid),
                   (ToAll, StreamStatus (isLive ss) (viewerCount ss) (startTime ss)
                             (currentAdminSocketId ss))])
          else (s, [(ToSocket sid, StreamError ''Only admins can start streams'')]))"

text \<open>
  \<^verbatim>\<open>socket.on('stop-stream', ...)\<close>. \<^verbatim>\<open>activeStreams.keys().next().value\<close> is read only
  where \<^verbatim>\<open>size > 0\<close>: it is the key of the first entry.
\<close>

definition stop_stream :: "socket_id \<Rightarrow> server \<Rightarrow> server \<times> emission list" where
  "stop_stream sid s =
     (case Map_get (connectedUsers s) sid of
        None \<Rightarrow> (s, [])
      | Some user \<Rightarrow>
          if isAdmin user \<and> Map_has (activeStreams (streamState s)) sid then
            let ss = (streamState s)
                  \<lparr>activeStreams := Map_delete sid (activeStreams (streamState s))\<rparr>
            in if currentAdminSocketId ss = Some sid then
                 (case activeStreams ss of
                    (nextAdmin, info) # rest \<Rightarrow>
                      (s\<lparr>streamState := ss\<lparr>currentAdminSocketId := Some nextAdmin\<rparr>\<rparr>,
                       [(ToAll, StreamTransition ''Stream switched to another admin'' nextAdmin)])
                  | [] \<Rightarrow>
                      (s\<lparr>streamState := ss
                           \<lparr> isLive := False,
                             currentAdminSocketId := None,
                             viewerCount := 0,
                             startTime := None \<rparr>\<rparr>,
                       [(ToAll, StreamEnded ''Live stream ended''),
                        (ToAll, StreamStatus False 0 None None)]))
               else (s\<lparr>streamState := ss\<rparr>, [])
          else (s, []))"

text \<open>\<^verbatim>\<open>socket.on('join-stream', ...)\<close>\<close>

definition join_stream :: "socket_id \<Rightarrow> server \<Rightarrow> server \<times> emission list" where
  "join_stream sid s =
     (let failed = (s, [(ToSocket sid,
                         StreamError (if isLive (streamState s) then ''Failed to join stream''
                                      else ''No live stream available''))])
      in case Map_get (connectedUsers s) sid of
           None \<Rightarrow> failed
         | Some user \<Rightarrow>
             if \<not> isAdmin user \<and> isLive (streamState s) then
               let ss = (streamState s)
                     \<lparr>viewerCount := Number_increment (viewerCount (streamState s))\<rparr>
               in (s\<lparr>streamState := ss\<rparr>,
                   (case currentAdminSocketId ss of
                      None \<Rightarrow> []
                    | Some admin \<Rightarrow>
                        if truthy (Some admin)
                        then [(ToRoom admin, ViewerJoined (viewerCount ss) sid (username user))]
                        else [])
                   @ [(ToAll, ViewerCountUpdate (viewerCount ss)),
                      (ToSocket sid,
                       ViewerJoinedConfirmed ''Successfully joined stream'' (viewerCount ss))])
             else failed)"

text \<open>\<^verbatim>\<open>socket.on('viewer-ready', ...)\<close>\<close>

definition viewer_ready :: "socket_id \<Rightarrow> server \<Rightarrow> server \<times> emission list" where
  "viewer_ready sid s =
     (case Map_get (connectedUsers s) sid of
        None \<Rightarrow> (s, [])
      | Some user \<Rightarrow>
          if \<not> isAdmin user \<and> isLive (streamState s) then
            (case currentAdminSocketId (streamState s) of
               None \<Rightarrow> (s, [])
             | Some admin \<Rightarrow>
                 if truthy (Some admin)
                 then (s, [(ToRoom admin, ViewerReady sid (username user))])
                 else (s, []))
          else (s, []))"

text \<open>\<^verbatim>\<open>socket.on('leave-stream', ...)\<close>\<close>

definition leave_stream :: "socket_id \<Rightarrow> server \<Rightarrow> server \<times> emission list" where
  "leave_stream sid s =
     (case Map_get (connectedUsers s) sid of
        None \<Rightarrow> (s, [])
      | Some user \<Rightarrow>
          if \<not> isAdmin user \<and> isLive (streamState s) then
            let ss = (streamState s)\<lparr>viewerCount := max 0 (viewerCount (streamState s) - 1)\<rparr>
            in (s\<lparr>streamState := ss\<rparr>,
                (case currentAdminSocketId ss of
                   None \<Rightarrow> []
                 | Some admin \<Rightarrow>
                     if truthy (Some admin)
                     then [(ToRoom admin, ViewerLeft (viewerCount ss) sid (username user))]
                     else [])
                @ [(ToAll, ViewerCountUpdate (viewerCount ss))])
          else (s, []))"

text \<open>\<^verbatim>\<open>socket.on('get-stream-status', ...)\<close>\<close>

definition get_stream_status :: "socket_id \<Rightarrow> server \<Rightarrow> server \<times> emission list" where
  "get_stream_status sid s =
     (let ss = streamState s in
      (s, [(ToSocket sid,
            StreamStatus (isLive ss) (viewerCount ss) (startTime ss) (currentAdminSocketId ss))]))"

text \<open>
  \<^verbatim>\<open>socket.on('webrtc-signal', ...)\<close>. The handler reads \<^verbatim>\<open>data.to\<close>,
  \<^verbatim>\<open>data.signal\<close> and \<^verbatim>\<open>data.type\<close>; \<open>sd_from\<close> stands for a sender field that the
  client may put into the object, which the handler never reads.
\<close>

record signal_data =
  sd_to :: "socket_id option"
  sd_signal :: string
  sd_type :: string
  sd_from :: "socket_id option"

definition webrtc_signal :: "socket_id \<Rightarrow> signal_data \<Rightarrow> server \<Rightarrow> server \<times> emission list" where
  "webrtc_signal sid data s =
     (case sd_to data of
        None \<Rightarrow> (s, [])
      | Some dest \<Rightarrow>
          if truthy (Some dest)
          then (s, [(ToRoom dest, WebrtcSignal (sd_signal data) sid (sd_type data))])
          else (s, []))"

text \<open>\<^verbatim>\<open>socket.on('chat-message', ...)\<close>\<close>

definition chat_message_handler :: "socket_id \<Rightarrow> nat \<Rightarrow> string \<Rightarrow> server \<Rightarrow> server \<times> emission list" where
  "chat_message_handler sid now text s =
     (case Map_get (connectedUsers s) sid of
        None \<Rightarrow> (s, [])
      | Some user \<Rightarrow>
          (s, [(ToAll, ChatMessage
                  \<lparr> cm_id = now, cm_username = username user, cm_message = text,
                    cm_timestamp = now, cm_isAdmin = isAdmin user, cm_socketId = sid \<rparr>)]))"

text \<open>The \<^verbatim>\<open>maxLength\<close> of the chat input of \<^verbatim>\<open>Chat.jsx\<close>, in the browser.\<close>

definition Chat_maxLength :: nat where
  "Chat_maxLength = 500"

text \<open>\<^verbatim>\<open>socket.on('disconnect', ...)\<close>\<close>

definition disconnect :: "socket_id \<Rightarrow> server \<Rightarrow> server \<times> emission list" where
  "disconnect sid s =
     (let (s', out) =
        (case Map_get (connectedUsers s) sid of
           None \<Rightarrow> (s, [])
         | Some user \<Rightarrow>
             if isAdmin user \<and> Map_has (activeStreams (streamState s)) sid then
               let ss = (streamState s)
                     \<lparr>activeStreams := Map_delete sid (activeStreams (streamState s))\<rparr>
               in if currentAdminSocketId ss = Some sid then
                    (case activeStreams ss of
                       (nextAdmin, info) # rest \<Rightarrow>
                         (s\<lparr>streamState := ss\<lparr>currentAdminSocketId := Some nextAdmin\<rparr>\<rparr>,
                          [(ToAll, StreamTransition ''Stream switched due to admin disconnect''
                                     nextAdmin)])
                     | [] \<Rightarrow>
                         (s\<lparr>streamState := ss
                              \<lparr> isLive := False,
                                currentAdminSocketId := None,
                                viewerCount := 0,
                                startTime := None \<rparr>\<rparr>,
                          [(ToAll, StreamEnded ''Stream ended - Admin disconnected''),
                           (ToAll, StreamStatus False 0 None None)]))
                  else (s\<lparr>streamState := ss\<rparr>, [])
             else if \<not> isAdmin user \<and> isLive (streamState s) then
               let ss = (streamState s)
                     \<lparr>viewerCount := max 0 (viewerCount (streamState s) - 1)\<rparr>
               in (s\<lparr>streamState := ss\<rparr>,
                   (case currentAdminSocketId ss of
                      None \<Rightarrow> []
                    | Some admin \<Rightarrow>
                        if truthy (Some admin)
                        then [(ToRoom admin, ViewerLeft (viewerCount ss) sid (username user))]
                        else [])
                   @ [(ToAll, ViewerCountUpdate (viewerCount ss))])
             else (s, []))
      in (s'\<lparr>connectedUsers := Map_delete sid (connectedUsers s')\<rparr>, out))"

subsection \<open>The event loop\<close>

datatype client_event =
    UserInfo string bool
  | StartStream
  | StopStream
  | JoinStream
  | ViewerReadyEv
  | LeaveStream
  | GetStreamStatus
  | WebrtcSignalEv signal_data
  | ChatMessageEv string
  | Disconnect

text \<open>An incoming event: the socket it arrives on, the clock, the event.\<close>

type_synonym incoming = "socket_id \<times> nat \<times> client_event"

fun handle :: "incoming \<Rightarrow> server \<Rightarrow> server \<times> emission list" where
  "handle (sid, now, UserInfo name admin) s = user_info_handler sid now name admin s"
| "handle (sid, now, StartStream) s = start_stream sid now s"
| "handle (sid, now, StopStream) s = stop_stream sid s"
| "handle (sid, now, JoinStream) s = join_stream sid s"
| "handle (sid, now, ViewerReadyEv) s = viewer_ready sid s"
| "handle (sid, now, LeaveStream) s = leave_stream sid s"
| "handle (sid, now, GetStreamStatus) s = get_stream_status sid s"
| "handle (sid, now, WebrtcSignalEv data) s = webrtc_signal sid data s"
| "handle (sid, now, ChatMessageEv text) s = chat_message_handler sid now text s"
| "handle (sid, now, Disconnect) s = disconnect sid s"

text \<open>The state after a sequence of events, each processed to completion.\<close>

fun run :: "incoming list \<Rightarrow> server \<Rightarrow> server" where
  "run [] s = s"
| "run (e # es) s = run es (fst (handle e s))"

subsection \<open>Properties of the state\<close>

text \<open>
  The invariant of \<^verbatim>\<open>streamState\<close>: the stream is live exactly when
  \<^verbatim>\<open>activeStreams\<close> has an entry, \<^verbatim>\<open>currentAdminSocketId\<close> is set exactly when the
  stream is live, and it is then a key of \<^verbatim>\<open>activeStreams\<close>.
\<close>

definition stream_invariant :: "stream_state \<Rightarrow> bool" where
  "stream_invariant ss =
     ((isLive ss = (activeStreams ss \<noteq> [])) \<and>
      ((currentAdminSocketId ss \<noteq> None) = isLive ss) \<and>
      (case currentAdminSocketId ss of
         None \<Rightarrow> True
       | Some p \<Rightarrow> Map_has (activeStreams ss) p))"



text \<open>
  The two copies of the failover code, in \<^verbatim>\<open>stop-stream\<close> and in \<^verbatim>\<open>disconnect\<close>,
  differ in the \<^verbatim>\<open>message\<close> text of what they emit; \<open>without_message\<close> blanks it, to
  compare the rest.
\<close>

fun without_message :: "server_event \<Rightarrow> server_event" where
  "without_message (StreamError m) = StreamError []"
| "without_message (StreamStarted m t n i) = StreamStarted [] t n i"
| "without_message (StreamTransition m i) = StreamTransition [] i"
| "without_message (StreamEnded m) = StreamEnded []"
| "without_message (ViewerJoinedConfirmed m c) = ViewerJoinedConfirmed [] c"
| "without_message e = e"

definition same_events :: "emission list \<Rightarrow> emission list \<Rightarrow> bool" where
  "same_events out out' =
     (map (\<lambda>e. (fst e, without_message (snd e))) out =
      map (\<lambda>e. (fst e, without_message (snd e))) out')"

subsection \<open>Scenarios\<close>

text \<open>Admins \<open>A\<close> and \<open>B\<close> are registered and \<open>A\<close> is streaming.\<close>

definition scenario_A_live :: server where
  "scenario_A_live =
     run [(''A'', 10, UserInfo ''alice'' True),
          (''B'', 11, UserInfo ''bob'' True),
          (''A'', 12, StartStream)] init_server"

text \<open>Admins \<open>A\<close>, \<open>B\<close> and \<open>C\<close> have started their streams, in this order.\<close>

definition scenario_ABC_live :: server where
  "scenario_ABC_live =
     run [(''A'', 10, UserInfo ''alice'' True),
          (''B'', 11, UserInfo ''bob'' True),
          (''C'', 12, UserInfo ''carol'' True),
          (''A'', 13, StartStream),
          (''B'', 14, StartStream),
          (''C'', 15, StartStream)] init_server"

text \<open>
  Admin \<open>A\<close> is streaming, the viewer \<open>V1\<close> has joined, and the viewer \<open>V2\<close> has
  registered and never joined.
\<close>

definition scenario_viewers :: server where
  "scenario_viewers =
     run [(''A'', 10, UserInfo ''alice'' True),
          (''A'', 11, StartStream),
          (''V1'', 12, UserInfo ''vera'' False),
          (''V1'', 13, JoinStream),
          (''V2'', 14, UserInfo ''victor'' False)] init_server"

section \<open>Lemmas about \<^verbatim>\<open>Map\<close>\<close>

lemma Map_has_Nil [simp]: "Map_has [] k = False"
  by (simp add: Map_has_def)

lemma Map_has_Cons [simp]: "Map_has (e # m) k = (fst e = k \<or> Map_has m k)"
  by (cases e) (simp add: Map_has_def)

lemma Map_keys_Nil [simp]: "Map_keys [] = []"
  by (simp add: Map_keys_def)

lemma Map_keys_Cons [simp]: "Map_keys (e # m) = fst e # Map_keys m"
  by (simp add: Map_keys_def)

lemma Map_has_keys: "Map_has m k = (k \<in> set (Map_keys m))"
  by (induction m) auto

lemma Map_keys_set:
  "Map_keys (Map_set k v m) = (if Map_has m k then Map_keys m else Map_keys m @ [k])"
  by (induction m) auto

text \<open>\<^verbatim>\<open>set\<close> on a new key puts the entry after all the others.\<close>

lemma Map_set_new: "\<not> Map_has m k \<Longrightarrow> Map_set k v m = m @ [(k, v)]"
  by (induction m) auto

lemma Map_keys_delete: "Map_keys (Map_delete k m) = filter (\<lambda>x. x \<noteq> k) (Map_keys m)"
  by (induction m) auto

lemma Map_has_set: "Map_has (Map_set k v m) k' = (k' = k \<or> Map_has m k')"
  by (auto simp: Map_has_keys Map_keys_set)

lemma Map_has_delete: "Map_has (Map_delete k m) k' = (k' \<noteq> k \<and> Map_has m k')"
  by (auto simp: Map_has_keys Map_keys_delete)

lemma Map_delete_Nil_D: "Map_delete k m = [] \<Longrightarrow> Map_has m k' \<Longrightarrow> k' = k"
  using Map_has_delete [of k m k'] by auto

lemma Map_set_nonempty: "Map_set k v m \<noteq> []"
  by (cases m) (auto split: if_splits)

lemma Map_has_nonempty: "Map_has m k \<Longrightarrow> m \<noteq> []"
  by auto

lemma Map_get_set: "Map_get (Map_set k v m) k' = (if k' = k then Some v else Map_get m k')"
  by (induction m) auto

lemma Map_get_delete: "Map_get (Map_delete k m) k' = (if k' = k then None else Map_get m k')"
  by (induction m) auto

lemma distinct_Map_set: "distinct (Map_keys m) \<Longrightarrow> distinct (Map_keys (Map_set k v m))"
  by (auto simp: Map_keys_set Map_has_keys)

lemma distinct_Map_delete: "distinct (Map_keys m) \<Longrightarrow> distinct (Map_keys (Map_delete k m))"
  by (auto simp: Map_keys_delete)

lemma distinct_Map_delete_Cons:
  "distinct (Map_keys m) \<Longrightarrow> Map_delete k m = (p, v) # rest \<Longrightarrow>
   p \<notin> set (Map_keys rest) \<and> distinct (Map_keys rest)"
  using distinct_Map_delete [of m k] by simp

section \<open>The invariant of the stream state\<close>

lemma inv_init: "stream_invariant (streamState init_server)"
  by (simp add: stream_invariant_def init_server_def)

lemma streamState_user_info:
  "streamState (fst (user_info_handler sid now name admin s)) = streamState s"
  by (simp add: user_info_handler_def Let_def)

lemma inv_start:
  "stream_invariant (streamState s) \<Longrightarrow>
   stream_invariant (streamState (fst (start_stream sid now s)))"
  by (auto simp: start_stream_def stream_invariant_def Let_def Map_has_set Map_set_nonempty
           split: option.splits)

lemma inv_stop:
  "stream_invariant (streamState s) \<Longrightarrow>
   stream_invariant (streamState (fst (stop_stream sid s)))"
  by (auto simp: stop_stream_def stream_invariant_def Let_def Map_has_delete
           split: option.splits list.splits dest: Map_has_nonempty Map_delete_Nil_D)

lemma inv_join:
  "stream_invariant (streamState s) \<Longrightarrow>
   stream_invariant (streamState (fst (join_stream sid s)))"
  by (auto simp: join_stream_def stream_invariant_def Let_def split: option.splits)

lemma inv_leave:
  "stream_invariant (streamState s) \<Longrightarrow>
   stream_invariant (streamState (fst (leave_stream sid s)))"
  by (auto simp: leave_stream_def stream_invariant_def Let_def split: option.splits)

lemma inv_disconnect:
  "stream_invariant (streamState s) \<Longrightarrow>
   stream_invariant (streamState (fst (disconnect sid s)))"
  by (auto simp: disconnect_def stream_invariant_def Let_def Map_has_delete
           split: option.splits list.splits dest: Map_has_nonempty Map_delete_Nil_D)

lemma streamState_other:
  "streamState (fst (viewer_ready sid s)) = streamState s"
  "streamState (fst (get_stream_status sid s)) = streamState s"
  "streamState (fst (webrtc_signal sid d s)) = streamState s"
  "streamState (fst (chat_message_handler sid now text s)) = streamState s"
  by (auto simp: viewer_ready_def get_stream_status_def webrtc_signal_def
        chat_message_handler_def Let_def split: option.splits)

lemma inv_handle:
  "stream_invariant (streamState s) \<Longrightarrow> stream_invariant (streamState (fst (handle e s)))"
proof -
  assume inv: "stream_invariant (streamState s)"
  obtain sid now ev where e: "e = (sid, now, ev)"
    by (cases e) auto
  show ?thesis
    unfolding e
    by (cases ev)
      (simp_all add: inv streamState_user_info streamState_other inv_start inv_stop inv_join
         inv_leave inv_disconnect)
qed

lemma inv_run:
  "stream_invariant (streamState s) \<Longrightarrow> stream_invariant (streamState (run evs s))"
  by (induction evs arbitrary: s) (simp_all add: inv_handle)

lemma scenario_A_live_value:
  "scenario_A_live =
     \<lparr> streamState =
         \<lparr> isLive = True,
           activeStreams =
             [(''A'', \<lparr>adminUsername = ''alice'', streamStartTime = 12, isPrimary = True\<rparr>)],
           viewerCount = 0, startTime = Some 12, currentAdminSocketId = Some ''A'' \<rparr>,
       connectedUsers =
         [(''A'', \<lparr>username = ''alice'', isAdmin = True, joinTime = 10\<rparr>),
          (''B'', \<lparr>username = ''bob'', isAdmin = True, joinTime = 11\<rparr>)] \<rparr>"
  by (simp add: scenario_A_live_def init_server_def user_info_handler_def start_stream_def
        Let_def)

text \<open>
  C2. Whatever events arrive, in whatever order and from whatever sockets (registration,
  start and stop of a stream, join and leave of a viewer, signals, chat, disconnect),
  the state after each of them satisfies the invariant: \<^verbatim>\<open>isLive\<close> holds exactly when
  \<^verbatim>\<open>activeStreams\<close> is not empty, \<^verbatim>\<open>currentAdminSocketId\<close> is set exactly when
  \<^verbatim>\<open>isLive\<close> holds, and it is then a key of \<^verbatim>\<open>activeStreams\<close>.
\<close>

theorem stream_invariant_reachable: "stream_invariant (streamState (run evs init_server))"
  by (rule inv_run [OF inv_init])

theorem stream_invariant_reachable_witness:
  "stream_invariant
     (streamState (run [(''A'', 10, UserInfo ''alice'' True),
          (''B'', 11, UserInfo ''bob'' True),
          (''A'', 12, StartStream)] init_server))
   \<and> isLive (streamState scenario_A_live)
   \<and> currentAdminSocketId (streamState scenario_A_live) = Some ''A''"
  using stream_invariant_reachable
    [of "[(''A'', 10, UserInfo ''alice'' True),
          (''B'', 11, UserInfo ''bob'' True),
          (''A'', 12, StartStream)]"]
  by (simp add: scenario_A_live_value)

section \<open>The viewer count\<close>

lemma vc_handle:
  "0 \<le> viewerCount (streamState s) \<Longrightarrow> 0 \<le> viewerCount (streamState (fst (handle e s)))"
proof -
  assume nn: "0 \<le> viewerCount (streamState s)"
  obtain sid now ev where e: "e = (sid, now, ev)"
    by (cases e) auto
  show ?thesis
    unfolding e using nn
    by (cases ev)
      (auto simp: streamState_user_info streamState_other start_stream_def stop_stream_def
         join_stream_def leave_stream_def disconnect_def Let_def Number_increment_def
         split: option.splits list.splits)
qed

lemma vc_run:
  "0 \<le> viewerCount (streamState s) \<Longrightarrow> 0 \<le> viewerCount (streamState (run evs s))"
  by (induction evs arbitrary: s) (simp_all add: vc_handle)

text \<open>The count stays in the range on which the model of \<^verbatim>\<open>++\<close> is exact.\<close>

lemma vc_upper_handle:
  "viewerCount (streamState s) \<le> 2 ^ 53 \<Longrightarrow>
   viewerCount (streamState (fst (handle e s))) \<le> 2 ^ 53"
proof -
  assume le: "viewerCount (streamState s) \<le> 2 ^ 53"
  obtain sid now ev where e: "e = (sid, now, ev)"
    by (cases e) auto
  show ?thesis
    unfolding e using le
    by (cases ev)
      (auto simp: streamState_user_info streamState_other start_stream_def stop_stream_def
         join_stream_def leave_stream_def disconnect_def Let_def Number_increment_def
         split: option.splits list.splits)
qed

lemma vc_upper_run:
  "viewerCount (streamState s) \<le> 2 ^ 53 \<Longrightarrow>
   viewerCount (streamState (run evs s)) \<le> 2 ^ 53"
proof (induction evs arbitrary: s)
  case Nil
  then show ?case by simp
next
  case (Cons e evs)
  show ?case
    unfolding run.simps by (rule Cons.IH) (rule vc_upper_handle [OF Cons.prems])
qed

lemma vc_upper_reachable: "viewerCount (streamState (run evs init_server)) \<le> 2 ^ 53"
  by (rule vc_upper_run) (simp add: init_server_def)

text \<open>Each event adds one to the count at most: a run shorter than \<open>2^53\<close> stays below it.\<close>

lemma vc_step_handle:
  "viewerCount (streamState (fst (handle e s))) \<le> max 0 (viewerCount (streamState s)) + 1"
proof -
  obtain sid now ev where e: "e = (sid, now, ev)"
    by (cases e) auto
  show ?thesis
    unfolding e
    by (cases ev)
      (auto simp: streamState_user_info streamState_other start_stream_def stop_stream_def
         join_stream_def leave_stream_def disconnect_def Let_def Number_increment_def
         split: option.splits list.splits)
qed

lemma vc_length_run:
  "viewerCount (streamState (run evs s)) \<le> max 0 (viewerCount (streamState s)) + int (length evs)"
proof (induction evs arbitrary: s)
  case Nil
  then show ?case by simp
next
  case (Cons e evs)
  have "viewerCount (streamState (run evs (fst (handle e s))))
          \<le> max 0 (viewerCount (streamState (fst (handle e s)))) + int (length evs)"
    by (rule Cons.IH)
  also have "\<dots> \<le> max 0 (viewerCount (streamState s)) + 1 + int (length evs)"
    using vc_step_handle [of e s] by simp
  finally show ?case by simp
qed

lemma vc_length_reachable:
  "viewerCount (streamState (run evs init_server)) \<le> int (length evs)"
  using vc_length_run [of evs init_server] by (simp add: init_server_def)

lemma scenario_viewers_value:
  "scenario_viewers =
     \<lparr> streamState =
         \<lparr> isLive = True,
           activeStreams =
             [(''A'', \<lparr>adminUsername = ''alice'', streamStartTime = 11, isPrimary = True\<rparr>)],
           viewerCount = 1, startTime = Some 11, currentAdminSocketId = Some ''A'' \<rparr>,
       connectedUsers =
         [(''A'', \<lparr>username = ''alice'', isAdmin = True, joinTime = 10\<rparr>),
          (''V1'', \<lparr>username = ''vera'', isAdmin = False, joinTime = 12\<rparr>),
          (''V2'', \<lparr>username = ''victor'', isAdmin = False, joinTime = 14\<rparr>)] \<rparr>"
  by (simp add: scenario_viewers_def init_server_def user_info_handler_def start_stream_def
        join_stream_def Let_def Number_increment_def)

text \<open>
  C6. \<^verbatim>\<open>viewerCount\<close> is never negative, after any sequence of events from the initial
  state. For a registered viewer and a live stream, \<^verbatim>\<open>leave-stream\<close> and the viewer
  branch of \<^verbatim>\<open>disconnect\<close> set it to \<open>max 0 (viewerCount - 1)\<close>: one less, and 0 where
  it was 0 already, so leaving more often than joining stops at 0.
\<close>

theorem viewerCount_never_negative:
  "0 \<le> viewerCount (streamState (run evs init_server)) \<and>
   (Map_get (connectedUsers s) sid = Some u \<and> \<not> isAdmin u \<and> isLive (streamState s) \<longrightarrow>
      viewerCount (streamState (fst (leave_stream sid s)))
        = max 0 (viewerCount (streamState s) - 1) \<and>
      viewerCount (streamState (fst (disconnect sid s)))
        = max 0 (viewerCount (streamState s) - 1))"
proof -
  have "0 \<le> viewerCount (streamState (run evs init_server))"
    by (rule vc_run) (simp add: init_server_def)
  moreover have
    "viewerCount (streamState (fst (leave_stream sid s)))
       = max 0 (viewerCount (streamState s) - 1)"
    if "Map_get (connectedUsers s) sid = Some u" "\<not> isAdmin u" "isLive (streamState s)"
    using that by (simp add: leave_stream_def Let_def)
  moreover have
    "viewerCount (streamState (fst (disconnect sid s)))
       = max 0 (viewerCount (streamState s) - 1)"
    if "Map_get (connectedUsers s) sid = Some u" "\<not> isAdmin u" "isLive (streamState s)"
    using that by (simp add: disconnect_def Let_def)
  ultimately show ?thesis by blast
qed

text \<open>The viewer \<open>V1\<close> joins once and leaves three times; or leaves twice; or disconnects.\<close>

theorem viewerCount_never_negative_witness:
  "0 \<le> viewerCount (streamState (run
          [(''A'', 10, UserInfo ''alice'' True),
           (''A'', 11, StartStream),
           (''V1'', 12, UserInfo ''vera'' False),
           (''V1'', 13, JoinStream),
           (''V1'', 14, LeaveStream),
           (''V1'', 15, LeaveStream),
           (''V1'', 16, LeaveStream)] init_server))
   \<and> Map_get (connectedUsers scenario_viewers) ''V1''
       = Some \<lparr>username = ''vera'', isAdmin = False, joinTime = 12\<rparr>
   \<and> isLive (streamState scenario_viewers)
   \<and> viewerCount (streamState scenario_viewers) = 1
   \<and> viewerCount (streamState (fst (leave_stream ''V1'' scenario_viewers))) = 0
   \<and> viewerCount (streamState
        (fst (leave_stream ''V1'' (fst (leave_stream ''V1'' scenario_viewers))))) = 0
   \<and> viewerCount (streamState (fst (disconnect ''V1'' scenario_viewers))) = 0"
  using
    viewerCount_never_negative
      [of "[(''A'', 10, UserInfo ''alice'' True),
            (''A'', 11, StartStream),
            (''V1'', 12, UserInfo ''vera'' False),
            (''V1'', 13, JoinStream),
            (''V1'', 14, LeaveStream),
            (''V1'', 15, LeaveStream),
            (''V1'', 16, LeaveStream)]"
          scenario_viewers "''V1''" "\<lparr>username = ''vera'', isAdmin = False, joinTime = 12\<rparr>"]
    viewerCount_never_negative
      [of "[]" "fst (leave_stream ''V1'' scenario_viewers)" "''V1''"
          "\<lparr>username = ''vera'', isAdmin = False, joinTime = 12\<rparr>"]
  by (simp add: scenario_viewers_value leave_stream_def Let_def)

section \<open>Starting a stream\<close>

text \<open>
  C1, as the specification states it: while the stream is live, a successful
  \<^verbatim>\<open>start-stream\<close> of another admin adds its entry and leaves
  \<^verbatim>\<open>currentAdminSocketId\<close> and \<^verbatim>\<open>startTime\<close> as they were. The handler assigns both
  unconditionally. Here \<open>A\<close> is streaming since 12 and is the current admin; \<open>B\<close>, a
  registered admin, starts at 20: its entry is added, and the current admin is \<open>B\<close>
  and the start time 20.
\<close>

theorem start_stream_overwrites_primary_counterexample:
  "isLive (streamState scenario_A_live)
   \<and> Map_has (activeStreams (streamState scenario_A_live)) ''A''
   \<and> Map_get (connectedUsers scenario_A_live) ''B''
       = Some \<lparr>username = ''bob'', isAdmin = True, joinTime = 11\<rparr>
   \<and> Map_has (activeStreams (streamState (fst (start_stream ''B'' 20 scenario_A_live)))) ''B''
   \<and> currentAdminSocketId (streamState scenario_A_live) = Some ''A''
   \<and> currentAdminSocketId (streamState (fst (start_stream ''B'' 20 scenario_A_live))) = Some ''B''
   \<and> startTime (streamState scenario_A_live) = Some 12
   \<and> startTime (streamState (fst (start_stream ''B'' 20 scenario_A_live))) = Some 20"
  by (simp add: scenario_A_live_value start_stream_def Let_def)

text \<open>
  C1, amended. In every state, live or not, a \<^verbatim>\<open>start-stream\<close> of a registered admin
  that has no entry in \<^verbatim>\<open>activeStreams\<close> succeeds: its entry is put after the
  existing ones, which stay as they are, \<^verbatim>\<open>currentAdminSocketId\<close> becomes the caller
  and \<^verbatim>\<open>startTime\<close> the time of the call, \<^verbatim>\<open>isLive\<close> holds, \<^verbatim>\<open>viewerCount\<close> and the
  registered users are unchanged, and \<^verbatim>\<open>stream-started\<close> and \<^verbatim>\<open>stream-status\<close> go to
  all. So the admin that started last is the current one.
\<close>

theorem start_stream_takes_primary:
  assumes "Map_get (connectedUsers s) sid = Some u" and "isAdmin u"
    and "\<not> Map_has (activeStreams (streamState s)) sid"
  shows "activeStreams (streamState (fst (start_stream sid now s)))
           = activeStreams (streamState s)
             @ [(sid, \<lparr>adminUsername = username u, streamStartTime = now, isPrimary = True\<rparr>)]
       \<and> currentAdminSocketId (streamState (fst (start_stream sid now s))) = Some sid
       \<and> startTime (streamState (fst (start_stream sid now s))) = Some now
       \<and> isLive (streamState (fst (start_stream sid now s)))
       \<and> viewerCount (streamState (fst (start_stream sid now s))) = viewerCount (streamState s)
       \<and> connectedUsers (fst (start_stream sid now s)) = connectedUsers s
       \<and> snd (start_stream sid now s)
           = [(ToAll, StreamStarted ''Live stream started'' now (username u) sid),
              (ToAll, StreamStatus True (viewerCount (streamState s)) (Some now) (Some sid))]"
  using assms by (simp add: start_stream_def Let_def Map_set_new)

theorem start_stream_takes_primary_witness:
  "Map_get (connectedUsers scenario_A_live) ''B''
       = Some \<lparr>username = ''bob'', isAdmin = True, joinTime = 11\<rparr>
   \<and> \<not> Map_has (activeStreams (streamState scenario_A_live)) ''B''
   \<and> Map_keys (activeStreams (streamState (fst (start_stream ''B'' 20 scenario_A_live))))
       = [''A'', ''B'']
   \<and> currentAdminSocketId (streamState (fst (start_stream ''B'' 20 scenario_A_live))) = Some ''B''
   \<and> startTime (streamState (fst (start_stream ''B'' 20 scenario_A_live))) = Some 20"
  using start_stream_takes_primary
          [of scenario_A_live "''B''" "\<lparr>username = ''bob'', isAdmin = True, joinTime = 11\<rparr>" 20]
  by (simp add: scenario_A_live_value)

section \<open>Failover\<close>

lemma filter_keys_Cons:
  "Map_delete sid m = (k, v) # rest \<Longrightarrow>
   filter (\<lambda>x. x \<noteq> sid) (Map_keys m) = k # Map_keys rest"
  using Map_keys_delete [of sid m] by simp

lemma Map_delete_nonempty:
  assumes "distinct (Map_keys m)" "2 \<le> Map_size m"
  shows "Map_delete sid m \<noteq> []"
proof
  assume "Map_delete sid m = []"
  then have "\<forall>k \<in> set (Map_keys m). k = sid"
    using Map_delete_Nil_D [of sid m] by (simp add: Map_has_keys)
  then have "set (Map_keys m) \<subseteq> {sid}" by auto
  then have "card (set (Map_keys m)) \<le> card {sid}"
    by (intro card_mono) simp_all
  then have "card (set (Map_keys m)) \<le> 1" by simp
  moreover have "card (set (Map_keys m)) = length (Map_keys m)"
    using assms(1) by (rule distinct_card)
  ultimately show False using assms(2) by (simp add: Map_size_def Map_keys_def)
qed

text \<open>The keys of \<^verbatim>\<open>activeStreams\<close> are distinct in every state the server reaches.\<close>

lemma distinct_handle:
  assumes "distinct (Map_keys (activeStreams (streamState s)))"
  shows "distinct (Map_keys (activeStreams (streamState (fst (handle e s)))))"
proof -
  obtain sid now ev where e: "e = (sid, now, ev)"
    by (cases e) auto
  show ?thesis
    unfolding e using assms
    by (cases ev)
      (auto simp: streamState_user_info streamState_other start_stream_def stop_stream_def
         join_stream_def leave_stream_def disconnect_def Let_def distinct_Map_set
         split: option.splits list.splits dest: distinct_Map_delete_Cons)
qed

lemma distinct_run:
  "distinct (Map_keys (activeStreams (streamState s))) \<Longrightarrow>
   distinct (Map_keys (activeStreams (streamState (run evs s))))"
  by (induction evs arbitrary: s) (simp_all add: distinct_handle)

lemma distinct_reachable:
  "distinct (Map_keys (activeStreams (streamState (run evs init_server))))"
  by (rule distinct_run) (simp add: init_server_def)

lemma scenario_ABC_live_value:
  "scenario_ABC_live =
     \<lparr> streamState =
         \<lparr> isLive = True,
           activeStreams =
             [(''A'', \<lparr>adminUsername = ''alice'', streamStartTime = 13, isPrimary = True\<rparr>),
              (''B'', \<lparr>adminUsername = ''bob'', streamStartTime = 14, isPrimary = True\<rparr>),
              (''C'', \<lparr>adminUsername = ''carol'', streamStartTime = 15, isPrimary = True\<rparr>)],
           viewerCount = 0, startTime = Some 15, currentAdminSocketId = Some ''C'' \<rparr>,
       connectedUsers =
         [(''A'', \<lparr>username = ''alice'', isAdmin = True, joinTime = 10\<rparr>),
          (''B'', \<lparr>username = ''bob'', isAdmin = True, joinTime = 11\<rparr>),
          (''C'', \<lparr>username = ''carol'', isAdmin = True, joinTime = 12\<rparr>)] \<rparr>"
  by (simp add: scenario_ABC_live_def init_server_def user_info_handler_def start_stream_def
        Let_def)

text \<open>
  C3. Let the current admin be a registered admin with an entry in \<^verbatim>\<open>activeStreams\<close>,
  and let \<^verbatim>\<open>activeStreams\<close> have two entries or more. When it stops its stream, the
  new current admin \<open>p\<close> is the first key, in insertion order, among the other entries:
  the earliest inserted of those that remain, and so not the latest of them when several
  remain. \<^verbatim>\<open>stream-transition\<close> with \<open>p\<close> goes to all, and \<^verbatim>\<open>isLive\<close> still holds.
  A disconnect of the same socket leaves the same stream state and emits the same event,
  with another message text.
\<close>

theorem primary_failover_fifo:
  assumes u: "Map_get (connectedUsers s) sid = Some u" and adm: "isAdmin u"
    and prim: "currentAdminSocketId (streamState s) = Some sid"
    and has: "Map_has (activeStreams (streamState s)) sid"
    and dist: "distinct (Map_keys (activeStreams (streamState s)))"
    and two: "2 \<le> Map_size (activeStreams (streamState s))"
    and live: "isLive (streamState s)"
  shows "\<exists>p later.
           filter (\<lambda>k. k \<noteq> sid) (Map_keys (activeStreams (streamState s))) = p # later
         \<and> p \<notin> set later
         \<and> (later \<noteq> [] \<longrightarrow> p \<noteq> last later)
         \<and> currentAdminSocketId (streamState (fst (stop_stream sid s))) = Some p
         \<and> isLive (streamState (fst (stop_stream sid s)))
         \<and> snd (stop_stream sid s)
             = [(ToAll, StreamTransition ''Stream switched to another admin'' p)]
         \<and> streamState (fst (disconnect sid s)) = streamState (fst (stop_stream sid s))
         \<and> snd (disconnect sid s)
             = [(ToAll, StreamTransition ''Stream switched due to admin disconnect'' p)]
         \<and> same_events (snd (disconnect sid s)) (snd (stop_stream sid s))"
proof -
  let ?m = "activeStreams (streamState s)"
  have "Map_delete sid ?m \<noteq> []"
    using dist two by (rule Map_delete_nonempty)
  then obtain p v rest where del: "Map_delete sid ?m = (p, v) # rest"
    by (cases "Map_delete sid ?m") auto
  have keys: "filter (\<lambda>k. k \<noteq> sid) (Map_keys ?m) = p # Map_keys rest"
    using del by (rule filter_keys_Cons)
  have "distinct (filter (\<lambda>k. k \<noteq> sid) (Map_keys ?m))"
    using dist by simp
  then have notin: "p \<notin> set (Map_keys rest)"
    unfolding keys by simp
  have stop: "stop_stream sid s =
      (s\<lparr>streamState := (streamState s)
           \<lparr>activeStreams := (p, v) # rest, currentAdminSocketId := Some p\<rparr>\<rparr>,
       [(ToAll, StreamTransition ''Stream switched to another admin'' p)])"
    by (simp add: stop_stream_def Let_def u adm prim has del)
  have disc: "disconnect sid s =
      (s\<lparr>streamState := (streamState s)
           \<lparr>activeStreams := (p, v) # rest, currentAdminSocketId := Some p\<rparr>,
         connectedUsers := Map_delete sid (connectedUsers s)\<rparr>,
       [(ToAll, StreamTransition ''Stream switched due to admin disconnect'' p)])"
    by (simp add: disconnect_def Let_def u adm prim has del)
  have "filter (\<lambda>k. k \<noteq> sid) (Map_keys ?m) = p # Map_keys rest
         \<and> p \<notin> set (Map_keys rest)
         \<and> (Map_keys rest \<noteq> [] \<longrightarrow> p \<noteq> last (Map_keys rest))
         \<and> currentAdminSocketId (streamState (fst (stop_stream sid s))) = Some p
         \<and> isLive (streamState (fst (stop_stream sid s)))
         \<and> snd (stop_stream sid s)
             = [(ToAll, StreamTransition ''Stream switched to another admin'' p)]
         \<and> streamState (fst (disconnect sid s)) = streamState (fst (stop_stream sid s))
         \<and> snd (disconnect sid s)
             = [(ToAll, StreamTransition ''Stream switched due to admin disconnect'' p)]
         \<and> same_events (snd (disconnect sid s)) (snd (stop_stream sid s))"
    unfolding stop disc using keys notin live last_in_set [of "Map_keys rest"]
    by (auto simp: same_events_def)
  then show ?thesis by blast
qed

text \<open>\<open>A\<close>, \<open>B\<close>, \<open>C\<close> stream and \<open>C\<close>, the current admin, stops: \<open>A\<close> takes over, not \<open>B\<close>.\<close>

theorem primary_failover_fifo_witness:
  "Map_get (connectedUsers scenario_ABC_live) ''C''
       = Some \<lparr>username = ''carol'', isAdmin = True, joinTime = 12\<rparr>
   \<and> currentAdminSocketId (streamState scenario_ABC_live) = Some ''C''
   \<and> Map_keys (activeStreams (streamState scenario_ABC_live)) = [''A'', ''B'', ''C'']
   \<and> isLive (streamState scenario_ABC_live)
   \<and> (\<exists>p later.
           filter (\<lambda>k. k \<noteq> ''C'') (Map_keys (activeStreams (streamState scenario_ABC_live))) = p # later
         \<and> p \<notin> set later
         \<and> (later \<noteq> [] \<longrightarrow> p \<noteq> last later)
         \<and> currentAdminSocketId (streamState (fst (stop_stream ''C'' scenario_ABC_live))) = Some p
         \<and> isLive (streamState (fst (stop_stream ''C'' scenario_ABC_live)))
         \<and> snd (stop_stream ''C'' scenario_ABC_live)
             = [(ToAll, StreamTransition ''Stream switched to another admin'' p)]
         \<and> streamState (fst (disconnect ''C'' scenario_ABC_live)) = streamState (fst (stop_stream ''C'' scenario_ABC_live))
         \<and> snd (disconnect ''C'' scenario_ABC_live)
             = [(ToAll, StreamTransition ''Stream switched due to admin disconnect'' p)]
         \<and> same_events (snd (disconnect ''C'' scenario_ABC_live)) (snd (stop_stream ''C'' scenario_ABC_live)))
   \<and> currentAdminSocketId (streamState (fst (stop_stream ''C'' scenario_ABC_live))) = Some ''A''"
proof -
  have h: "Map_get (connectedUsers scenario_ABC_live) ''C''
       = Some \<lparr>username = ''carol'', isAdmin = True, joinTime = 12\<rparr>"
     "isAdmin \<lparr>username = ''carol'', isAdmin = True, joinTime = 12\<rparr>"
     "currentAdminSocketId (streamState scenario_ABC_live) = Some ''C''"
     "Map_has (activeStreams (streamState scenario_ABC_live)) ''C''"
     "distinct (Map_keys (activeStreams (streamState scenario_ABC_live)))"
     "2 \<le> Map_size (activeStreams (streamState scenario_ABC_live))"
     "isLive (streamState scenario_ABC_live)"
    by (simp_all add: scenario_ABC_live_value Map_size_def)
  have k: "Map_keys (activeStreams (streamState scenario_ABC_live)) = [''A'', ''B'', ''C'']"
    by (simp add: scenario_ABC_live_value)
  have a: "currentAdminSocketId (streamState (fst (stop_stream ''C'' scenario_ABC_live))) = Some ''A''"
    by (simp add: scenario_ABC_live_value stop_stream_def Let_def)
  show ?thesis
    using primary_failover_fifo [OF h] h(1,3,7) k a by blast
qed

section \<open>Disconnect\<close>

text \<open>
  C4, as the specification states it: a disconnect of a registered connection that is
  neither a broadcaster with a stream nor a counted viewer leaves the stream state,
  \<^verbatim>\<open>viewerCount\<close> included, as it was. The server keeps no record of who joined, and the
  viewer branch of \<^verbatim>\<open>disconnect\<close> asks only for a registered non-admin and a live
  stream. Here \<open>V1\<close> has joined and \<open>V2\<close> has registered and never joined; the
  disconnect of \<open>V2\<close> takes the count from 1 to 0 and announces it.
\<close>

theorem disconnect_uncounted_viewer_counterexample:
  "Map_get (connectedUsers scenario_viewers) ''V2''
     = Some \<lparr>username = ''victor'', isAdmin = False, joinTime = 14\<rparr>
   \<and> \<not> Map_has (activeStreams (streamState scenario_viewers)) ''V2''
   \<and> viewerCount (streamState scenario_viewers) = 1
   \<and> viewerCount (streamState (fst (disconnect ''V2'' scenario_viewers))) = 0
   \<and> streamState (fst (disconnect ''V2'' scenario_viewers)) \<noteq> streamState scenario_viewers
   \<and> snd (disconnect ''V2'' scenario_viewers)
       = [(ToRoom ''A'', ViewerLeft 0 ''V2'' ''victor''), (ToAll, ViewerCountUpdate 0)]"
  by (simp add: scenario_viewers_value disconnect_def Let_def)

text \<open>
  C4, amended. For every disconnect of a registered connection, the role decides. An
  admin with an entry in \<^verbatim>\<open>activeStreams\<close>: the stream state becomes what
  \<^verbatim>\<open>stop-stream\<close> makes it, with the same events up to the message text. A non-admin:
  the stream state becomes what \<^verbatim>\<open>leave-stream\<close> of that connection makes it, with the
  same events; while the stream is live this takes one from \<^verbatim>\<open>viewerCount\<close>, down to 0
  at least, whether the connection ever joined or not. An admin without an entry: the
  stream state is unchanged. In each case the connection is removed from
  \<^verbatim>\<open>connectedUsers\<close>.
\<close>

theorem disconnect_by_role:
  assumes u: "Map_get (connectedUsers s) sid = Some u"
  shows "streamState (fst (disconnect sid s))
           = (if isAdmin u \<and> Map_has (activeStreams (streamState s)) sid
              then streamState (fst (stop_stream sid s))
              else if \<not> isAdmin u then streamState (fst (leave_stream sid s))
              else streamState s)
       \<and> (isAdmin u \<and> Map_has (activeStreams (streamState s)) sid \<longrightarrow>
            same_events (snd (disconnect sid s)) (snd (stop_stream sid s)))
       \<and> (\<not> isAdmin u \<longrightarrow> snd (disconnect sid s) = snd (leave_stream sid s))
       \<and> (\<not> isAdmin u \<and> isLive (streamState s) \<longrightarrow>
            viewerCount (streamState (fst (disconnect sid s)))
              = max 0 (viewerCount (streamState s) - 1))
       \<and> connectedUsers (fst (disconnect sid s)) = Map_delete sid (connectedUsers s)"
proof (cases "isAdmin u \<and> Map_has (activeStreams (streamState s)) sid")
  case True
  then show ?thesis
    using u
    by (cases "Map_delete sid (activeStreams (streamState s))")
      (auto simp: disconnect_def stop_stream_def Let_def same_events_def)
next
  case False
  then show ?thesis
    using u
    by (auto simp: disconnect_def leave_stream_def Let_def split: option.splits)
qed

text \<open>The viewer \<open>V2\<close> and the streaming admin \<open>A\<close> of the scenario disconnect.\<close>

theorem disconnect_by_role_witness:
  "Map_get (connectedUsers scenario_viewers) ''V2''
     = Some \<lparr>username = ''victor'', isAdmin = False, joinTime = 14\<rparr>
   \<and> isLive (streamState scenario_viewers)
   \<and> streamState (fst (disconnect ''V2'' scenario_viewers))
       = streamState (fst (leave_stream ''V2'' scenario_viewers))
   \<and> snd (disconnect ''V2'' scenario_viewers) = snd (leave_stream ''V2'' scenario_viewers)
   \<and> viewerCount (streamState (fst (disconnect ''V2'' scenario_viewers))) = 0
   \<and> Map_get (connectedUsers scenario_viewers) ''A''
       = Some \<lparr>username = ''alice'', isAdmin = True, joinTime = 10\<rparr>
   \<and> Map_has (activeStreams (streamState scenario_viewers)) ''A''
   \<and> streamState (fst (disconnect ''A'' scenario_viewers))
       = streamState (fst (stop_stream ''A'' scenario_viewers))
   \<and> same_events (snd (disconnect ''A'' scenario_viewers))
        (snd (stop_stream ''A'' scenario_viewers))
   \<and> Map_keys (connectedUsers (fst (disconnect ''A'' scenario_viewers))) = [''V1'', ''V2'']"
proof -
  have v: "Map_get (connectedUsers scenario_viewers) ''V2''
             = Some \<lparr>username = ''victor'', isAdmin = False, joinTime = 14\<rparr>"
    and a: "Map_get (connectedUsers scenario_viewers) ''A''
             = Some \<lparr>username = ''alice'', isAdmin = True, joinTime = 10\<rparr>"
    and l: "isLive (streamState scenario_viewers)"
    and h: "Map_has (activeStreams (streamState scenario_viewers)) ''A''"
    and c: "viewerCount (streamState scenario_viewers) = 1"
    and k: "Map_delete ''A'' (connectedUsers scenario_viewers)
             = [(''V1'', \<lparr>username = ''vera'', isAdmin = False, joinTime = 12\<rparr>),
                (''V2'', \<lparr>username = ''victor'', isAdmin = False, joinTime = 14\<rparr>)]"
    by (simp_all add: scenario_viewers_value)
  show ?thesis
    using disconnect_by_role [OF v] disconnect_by_role [OF a] v a l h c k
    by (simp add: scenario_viewers_value leave_stream_def Let_def)
qed

section \<open>Joining as a viewer\<close>














lemma received_Nil [simp]: "received conns [] c = []"
  by (simp add: received_def)

lemma received_Cons [simp]:
  "received conns (e # out) c =
     (if c \<in> recipients conns (fst e) then snd e # received conns out c
      else received conns out c)"
  by (simp add: received_def)



text \<open>
  What a run of \<^verbatim>\<open>join-stream\<close> events of one registered viewer does to a live
  stream: every one of them counts, until the count is \<open>2^53\<close>.
\<close>

lemma join_stream_ok:
  assumes "Map_get (connectedUsers s) sid = Some u" and "\<not> isAdmin u"
    and "isLive (streamState s)"
  shows "fst (join_stream sid s)
           = s\<lparr>streamState :=
                (streamState s)\<lparr>viewerCount := Number_increment (viewerCount (streamState s))\<rparr>\<rparr>"
  using assms by (simp add: join_stream_def Let_def)

lemma Number_increment_min:
  "n \<le> 2 ^ 53 \<Longrightarrow> min (2 ^ 53) (Number_increment n + k) = min (2 ^ 53) (n + (1 + k))"
  if "0 \<le> k" for n k :: int
  using that by (auto simp: Number_increment_def min_def)

lemma join_stream_times:
  assumes "Map_get (connectedUsers s) sid = Some u" and "\<not> isAdmin u"
    and "isLive (streamState s)" and "viewerCount (streamState s) \<le> 2 ^ 53"
  shows "run (map (\<lambda>t. (sid, t, JoinStream)) ts) s
           = s\<lparr>streamState :=
                (streamState s)
                  \<lparr>viewerCount := min (2 ^ 53) (viewerCount (streamState s) + int (length ts))\<rparr>\<rparr>"
  using assms
proof (induction ts arbitrary: s)
  case Nil
  then show ?case by simp
next
  case (Cons t ts)
  let ?n = "viewerCount (streamState s)"
  let ?s' = "s\<lparr>streamState := (streamState s)\<lparr>viewerCount := Number_increment ?n\<rparr>\<rparr>"
  have step: "fst (join_stream sid s) = ?s'"
    using Cons.prems(1-3) by (rule join_stream_ok)
  have le: "Number_increment ?n \<le> 2 ^ 53"
    using Cons.prems(4) by (simp add: Number_increment_def)
  have "run (map (\<lambda>t. (sid, t, JoinStream)) ts) ?s'
          = ?s'\<lparr>streamState :=
                (streamState ?s')
                  \<lparr>viewerCount :=
                     min (2 ^ 53) (viewerCount (streamState ?s') + int (length ts))\<rparr>\<rparr>"
    using Cons.prems(1-3) le by (intro Cons.IH) simp_all
  moreover have "min (2 ^ 53) (Number_increment ?n + int (length ts))
                   = min (2 ^ 53) (?n + (1 + int (length ts)))"
    using Cons.prems(4) by (intro Number_increment_min) simp_all
  ultimately show ?case
    by (simp add: step)
qed

lemma join_stream_replicate:
  assumes "Map_get (connectedUsers s) sid = Some u" and "\<not> isAdmin u"
    and "isLive (streamState s)" and "viewerCount (streamState s) \<le> 2 ^ 53"
  shows "run (replicate n (sid, now, JoinStream)) s
           = s\<lparr>streamState :=
                (streamState s)
                  \<lparr>viewerCount := min (2 ^ 53) (viewerCount (streamState s) + int n)\<rparr>\<rparr>"
  using join_stream_times [OF assms, of "replicate n now"] by (simp add: map_replicate)

text \<open>
  C10, as the claim states it: every repeated \<^verbatim>\<open>join-stream\<close> of a registered
  non-admin on a live stream increments \<^verbatim>\<open>viewerCount\<close> again, so that one connection
  takes it beyond every bound. \<^verbatim>\<open>viewerCount\<close> is a double. In the scenario the count
  is 1 and \<open>V2\<close> is a registered viewer; after \<open>2^53 - 1\<close> calls of \<open>V2\<close> the count is
  \<open>2^53\<close>, and the next call of \<open>V2\<close> leaves it there.
\<close>

theorem join_stream_saturates_counterexample:
  "Map_get (connectedUsers (run (replicate (2 ^ 53 - 1) (''V2'', 20, JoinStream)) scenario_viewers))
      ''V2''
     = Some \<lparr>username = ''victor'', isAdmin = False, joinTime = 14\<rparr>
   \<and> isLive (streamState
        (run (replicate (2 ^ 53 - 1) (''V2'', 20, JoinStream)) scenario_viewers))
   \<and> viewerCount (streamState
        (run (replicate (2 ^ 53 - 1) (''V2'', 20, JoinStream)) scenario_viewers))
       = 2 ^ 53
   \<and> viewerCount (streamState
        (fst (join_stream ''V2''
           (run (replicate (2 ^ 53 - 1) (''V2'', 20, JoinStream)) scenario_viewers))))
       = 2 ^ 53"
proof -
  have v: "Map_get (connectedUsers scenario_viewers) ''V2''
             = Some \<lparr>username = ''victor'', isAdmin = False, joinTime = 14\<rparr>"
    and a: "\<not> isAdmin \<lparr>username = ''victor'', isAdmin = False, joinTime = 14\<rparr>"
    and l: "isLive (streamState scenario_viewers)"
    and c: "viewerCount (streamState scenario_viewers) = 1"
    by (simp_all add: scenario_viewers_value)
  have le: "viewerCount (streamState scenario_viewers) \<le> 2 ^ 53"
    by (simp add: c)
  have n: "min (2 ^ 53) (viewerCount (streamState scenario_viewers) + int (2 ^ 53 - 1))
             = (2 ^ 53 :: int)"
    by (simp add: c)
  have r: "run (replicate (2 ^ 53 - 1) (''V2'', 20, JoinStream)) scenario_viewers
             = scenario_viewers\<lparr>streamState :=
                 (streamState scenario_viewers)\<lparr>viewerCount := 2 ^ 53\<rparr>\<rparr>"
    unfolding join_stream_replicate [OF v a l le] n ..
  show ?thesis
    unfolding r using v l by (simp add: join_stream_def Let_def Number_increment_def)
qed

text \<open>
  C10, amended. The state has no record of who has joined, and \<^verbatim>\<open>join-stream\<close> asks
  only for a registered non-admin and a live stream. So when one such connection sends
  \<^verbatim>\<open>join-stream\<close> again and again (at the times \<open>ts\<close>), every call counts as long as
  \<^verbatim>\<open>viewerCount\<close> is below \<open>2^53\<close>, and at \<open>2^53\<close> the count stays: after the calls it
  is the old count plus the number of calls, or \<open>2^53\<close> if that is less. One connection
  can take the count to \<open>2^53\<close>, whatever the number of connections. The next call,
  counted or not, again announces the count to all, confirms to the caller and notifies
  the current admin. The count is at most \<open>2^53\<close> in every state the server reaches
  (\<open>vc_upper_reachable\<close>).
\<close>

theorem join_stream_not_idempotent:
  assumes "Map_get (connectedUsers s) sid = Some u" and "\<not> isAdmin u"
    and "isLive (streamState s)" and "viewerCount (streamState s) \<le> 2 ^ 53"
  shows "viewerCount (streamState (run (map (\<lambda>t. (sid, t, JoinStream)) ts) s))
           = min (2 ^ 53) (viewerCount (streamState s) + int (length ts))
       \<and> (viewerCount (streamState s) + int (length ts) \<le> 2 ^ 53 \<longrightarrow>
            viewerCount (streamState (run (map (\<lambda>t. (sid, t, JoinStream)) ts) s))
              = viewerCount (streamState s) + int (length ts))
       \<and> (ToAll, ViewerCountUpdate (min (2 ^ 53) (viewerCount (streamState s) + int (length ts) + 1)))
           \<in> set (snd (join_stream sid (run (map (\<lambda>t. (sid, t, JoinStream)) ts) s)))
       \<and> (ToSocket sid,
            ViewerJoinedConfirmed ''Successfully joined stream''
              (min (2 ^ 53) (viewerCount (streamState s) + int (length ts) + 1)))
           \<in> set (snd (join_stream sid (run (map (\<lambda>t. (sid, t, JoinStream)) ts) s)))
       \<and> (\<forall>p. currentAdminSocketId (streamState s) = Some p \<and> p \<noteq> [] \<longrightarrow>
            (ToRoom p,
             ViewerJoined (min (2 ^ 53) (viewerCount (streamState s) + int (length ts) + 1)) sid
               (username u))
            \<in> set (snd (join_stream sid (run (map (\<lambda>t. (sid, t, JoinStream)) ts) s))))"
proof -
  let ?n = "viewerCount (streamState s) + int (length ts)"
  have next_count: "Number_increment (min (2 ^ 53) ?n) = min (2 ^ 53) (?n + 1)"
    by (auto simp: Number_increment_def min_def)
  show ?thesis
    unfolding join_stream_times [OF assms]
    using assms(1-3) next_count by (auto simp: join_stream_def Let_def)
qed

text \<open>\<open>V2\<close> joins three times: the count goes from 1 to 4.\<close>

theorem join_stream_not_idempotent_witness:
  "Map_get (connectedUsers scenario_viewers) ''V2''
     = Some \<lparr>username = ''victor'', isAdmin = False, joinTime = 14\<rparr>
   \<and> isLive (streamState scenario_viewers)
   \<and> viewerCount (streamState scenario_viewers) = 1
   \<and> viewerCount (streamState
        (run [(''V2'', 20, JoinStream), (''V2'', 21, JoinStream), (''V2'', 22, JoinStream)]
           scenario_viewers)) = 4"
proof -
  have v: "Map_get (connectedUsers scenario_viewers) ''V2''
     = Some \<lparr>username = ''victor'', isAdmin = False, joinTime = 14\<rparr>"
    and a: "\<not> isAdmin \<lparr>username = ''victor'', isAdmin = False, joinTime = 14\<rparr>"
    and l: "isLive (streamState scenario_viewers)"
    and c: "viewerCount (streamState scenario_viewers) = 1"
    by (simp_all add: scenario_viewers_value)
  have le: "viewerCount (streamState scenario_viewers) \<le> 2 ^ 53"
    by (simp add: c)
  show ?thesis
    using v l c join_stream_not_idempotent [OF v a l le, of "[20, 21, 22]"]
    by simp
qed

section \<open>Relaying signals\<close>

text \<open>
  C7. A \<^verbatim>\<open>webrtc-signal\<close> whose \<^verbatim>\<open>to\<close> is the socket id \<open>x\<close> produces one
  message, to the room \<open>x\<close>: no socket other than \<open>x\<close> receives anything, \<open>x\<close>
  receives it when connected, its \<^verbatim>\<open>signal\<close> and \<^verbatim>\<open>type\<close> are those of the caller,
  its \<^verbatim>\<open>from\<close> is the socket id of the caller, whatever sender the caller has put
  into the data, and the state is unchanged.
\<close>

theorem webrtc_signal_relay:
  assumes "sd_to d = Some x" and "x \<noteq> []"
  shows "fst (webrtc_signal sid d s) = s
       \<and> snd (webrtc_signal sid d s)
           = [(ToRoom x, WebrtcSignal (sd_signal d) sid (sd_type d))]
       \<and> (\<forall>c. c \<noteq> x \<longrightarrow> received conns (snd (webrtc_signal sid d s)) c = [])
       \<and> (x \<in> conns \<longrightarrow>
            received conns (snd (webrtc_signal sid d s)) x
              = [WebrtcSignal (sd_signal d) sid (sd_type d)])
       \<and> webrtc_signal sid (d\<lparr>sd_from := claimed\<rparr>) s = webrtc_signal sid d s"
  using assms by (simp add: webrtc_signal_def)

text \<open>
  \<open>V1\<close> answers \<open>A\<close> and claims to be \<open>V2\<close>.
\<close>

theorem webrtc_signal_relay_witness:
  "received {''A'', ''V1'', ''V2''}
     (snd (webrtc_signal ''V1''
        \<lparr>sd_to = Some ''A'', sd_signal = ''sdp'', sd_type = ''answer'', sd_from = Some ''V2''\<rparr>
        scenario_viewers)) ''A''
     = [WebrtcSignal ''sdp'' ''V1'' ''answer'']
   \<and> received {''A'', ''V1'', ''V2''}
     (snd (webrtc_signal ''V1''
        \<lparr>sd_to = Some ''A'', sd_signal = ''sdp'', sd_type = ''answer'', sd_from = Some ''V2''\<rparr>
        scenario_viewers)) ''V2''
     = []"
  using webrtc_signal_relay
    [of "\<lparr>sd_to = Some ''A'', sd_signal = ''sdp'', sd_type = ''answer'', sd_from = Some ''V2''\<rparr>"
        "''A''" "''V1''" scenario_viewers "{''A'', ''V1'', ''V2''}" None]
  by simp

text \<open>
  C8, as the specification states it: when the destination is not registered,
  nothing is delivered. The handler does not look at \<^verbatim>\<open>connectedUsers\<close>; it emits to
  the room of the destination. Here the socket \<open>X\<close> is connected and has sent no
  \<^verbatim>\<open>user-info\<close>, so it is not registered; the offer of \<open>A\<close> is delivered to it.
\<close>

theorem webrtc_signal_unregistered_counterexample:
  "Map_get (connectedUsers scenario_A_live) ''X'' = None
   \<and> received {''A'', ''B'', ''X''}
       (snd (webrtc_signal ''A''
          \<lparr>sd_to = Some ''X'', sd_signal = ''sdp'', sd_type = ''offer'', sd_from = None\<rparr>
          scenario_A_live)) ''X''
       = [WebrtcSignal ''sdp'' ''A'' ''offer'']"
  by (simp add: scenario_A_live_value webrtc_signal_def)

text \<open>
  C8, amended. When the destination is not the id of a connected socket (it has
  disconnected, or never existed), no socket receives anything, the sender included,
  so no error is reported; the state is unchanged, and the handler returns.
\<close>

theorem webrtc_signal_unconnected:
  assumes "sd_to d = Some x" and "x \<notin> conns"
  shows "fst (webrtc_signal sid d s) = s
       \<and> (\<forall>c. received conns (snd (webrtc_signal sid d s)) c = [])"
  using assms by (simp add: webrtc_signal_def)

text \<open>
  \<open>A\<close> sends an offer to \<open>X\<close>, which is not connected.
\<close>

theorem webrtc_signal_unconnected_witness:
  "''X'' \<notin> {''A'', ''B''}
   \<and> fst (webrtc_signal ''A''
          \<lparr>sd_to = Some ''X'', sd_signal = ''sdp'', sd_type = ''offer'', sd_from = None\<rparr>
          scenario_A_live) = scenario_A_live
   \<and> received {''A'', ''B''}
       (snd (webrtc_signal ''A''
          \<lparr>sd_to = Some ''X'', sd_signal = ''sdp'', sd_type = ''offer'', sd_from = None\<rparr>
          scenario_A_live)) ''A'' = []
   \<and> received {''A'', ''B''}
       (snd (webrtc_signal ''A''
          \<lparr>sd_to = Some ''X'', sd_signal = ''sdp'', sd_type = ''offer'', sd_from = None\<rparr>
          scenario_A_live)) ''X'' = []"
  using webrtc_signal_unconnected
    [of "\<lparr>sd_to = Some ''X'', sd_signal = ''sdp'', sd_type = ''offer'', sd_from = None\<rparr>"
        "''X''" "{''A'', ''B''}" "''A''" scenario_A_live]
  by simp

section \<open>Chat\<close>

text \<open>
  C9, as the specification states it: a text longer than the maximum is truncated or
  the message rejected. The server does neither; the limit of 500 characters is the
  \<^verbatim>\<open>maxLength\<close> of the input field in the browser. Here a registered viewer sends a
  text of 501 characters, and the server publishes all of it.
\<close>

theorem chat_message_long_counterexample:
  "Map_get (connectedUsers scenario_viewers) ''V1''
     = Some \<lparr>username = ''vera'', isAdmin = False, joinTime = 12\<rparr>
   \<and> Chat_maxLength < length (replicate 501 (CHR ''a''))
   \<and> snd (chat_message_handler ''V1'' 99 (replicate 501 (CHR ''a'')) scenario_viewers)
       = [(ToAll, ChatMessage
            \<lparr> cm_id = 99, cm_username = ''vera'', cm_message = replicate 501 (CHR ''a''),
              cm_timestamp = 99, cm_isAdmin = False, cm_socketId = ''V1'' \<rparr>)]"
  by (simp add: scenario_viewers_value chat_message_handler_def Chat_maxLength_def)

text \<open>
  C9, amended. For every \<^verbatim>\<open>chat-message\<close> from a registered connection, the server
  publishes one message, with the name and the role of the sender from
  \<^verbatim>\<open>connectedUsers\<close>, the id and the time stamp from the clock, and the text as it
  was received, whatever its length. Every connected socket receives it, the sender
  too. The state is unchanged.
\<close>

theorem chat_message_published:
  assumes "Map_get (connectedUsers s) sid = Some u"
  shows "fst (chat_message_handler sid now text s) = s
       \<and> snd (chat_message_handler sid now text s)
           = [(ToAll, ChatMessage
                \<lparr> cm_id = now, cm_username = username u, cm_message = text,
                  cm_timestamp = now, cm_isAdmin = isAdmin u, cm_socketId = sid \<rparr>)]
       \<and> (\<forall>c \<in> conns.
            received conns (snd (chat_message_handler sid now text s)) c
              = [ChatMessage
                  \<lparr> cm_id = now, cm_username = username u, cm_message = text,
                    cm_timestamp = now, cm_isAdmin = isAdmin u, cm_socketId = sid \<rparr>])"
  using assms by (simp add: chat_message_handler_def)

text \<open>
  \<open>V1\<close> says hi; \<open>V1\<close> and \<open>A\<close> receive it.
\<close>

theorem chat_message_published_witness:
  "Map_get (connectedUsers scenario_viewers) ''V1''
     = Some \<lparr>username = ''vera'', isAdmin = False, joinTime = 12\<rparr>
   \<and> received {''A'', ''V1'', ''V2''}
       (snd (chat_message_handler ''V1'' 99 ''hi'' scenario_viewers)) ''V1''
       = [ChatMessage
            \<lparr> cm_id = 99, cm_username = ''vera'', cm_message = ''hi'',
              cm_timestamp = 99, cm_isAdmin = False, cm_socketId = ''V1'' \<rparr>]
   \<and> received {''A'', ''V1'', ''V2''}
       (snd (chat_message_handler ''V1'' 99 ''hi'' scenario_viewers)) ''A''
       = [ChatMessage
            \<lparr> cm_id = 99, cm_username = ''vera'', cm_message = ''hi'',
              cm_timestamp = 99, cm_isAdmin = False, cm_socketId = ''V1'' \<rparr>]"
proof -
  have v: "Map_get (connectedUsers scenario_viewers) ''V1''
     = Some \<lparr>username = ''vera'', isAdmin = False, joinTime = 12\<rparr>"
    by (simp add: scenario_viewers_value)
  show ?thesis
    using v chat_message_published [OF v, of 99 "''hi''" "{''A'', ''V1'', ''V2''}"]
    by simp
qed

end
